theory Spec2Isabelle
  imports Main "HOL-Library.Sublist"
begin

section \<open>String primitives of the host language\<close>

text \<open>
  The background script of the browser extension (the second document of
  \<^verbatim>\<open>browser-extension/src/options.js\<close>, from \<^verbatim>\<open>const CONFIG\<close> on) uses the
  string methods \<^verbatim>\<open>startsWith\<close>, \<^verbatim>\<open>includes\<close>, \<^verbatim>\<open>toLowerCase\<close>, \<^verbatim>\<open>split\<close> and
  \<^verbatim>\<open>replace\<close> with a string pattern.  Strings are lists of characters; the
  lower-casing is the one of the ASCII letters, which is all a host name
  produced by the URL parser can hold.
\<close>

fun startsWith :: "string \<Rightarrow> string \<Rightarrow> bool" where
  "startsWith s [] = True"
| "startsWith [] (c # cs) = False"
| "startsWith (x # xs) (c # cs) = (x = c \<and> startsWith xs cs)"

fun str_includes :: "string \<Rightarrow> string \<Rightarrow> bool" where
  "str_includes [] d = (d = [])"
| "str_includes (x # xs) d = (startsWith (x # xs) d \<or> str_includes xs d)"

definition lowerChar :: "char \<Rightarrow> char" where
  "lowerChar c =
     (case map_of (zip ''ABCDEFGHIJKLMNOPQRSTUVWXYZ'' ''abcdefghijklmnopqrstuvwxyz'') c of
        None \<Rightarrow> c
      | Some l \<Rightarrow> l)"

definition toLowerCase :: "string \<Rightarrow> string" where
  "toLowerCase s = map lowerChar s"

text \<open>\<^verbatim>\<open>s.replace(p, r)\<close> with a string \<^verbatim>\<open>p\<close>: only the first occurrence is replaced.\<close>

fun replaceFirst :: "string \<Rightarrow> string \<Rightarrow> string \<Rightarrow> string" where
  "replaceFirst [] p r = (if p = [] then r else [])"
| "replaceFirst (x # xs) p r =
     (if startsWith (x # xs) p then r @ drop (length p) (x # xs)
      else x # replaceFirst xs p r)"

text \<open>
  \<^verbatim>\<open>s.split(sep)\<close> with a one-character separator: the pieces between the
  separators, empty pieces included, so the result is never empty.
\<close>

fun str_split :: "char \<Rightarrow> string \<Rightarrow> string list" where
  "str_split sep [] = [[]]"
| "str_split sep (x # xs) =
     (if x = sep then [] # str_split sep xs
      else (case str_split sep xs of
              [] \<Rightarrow> [[x]]
            | p # ps \<Rightarrow> (x # p) # ps))"

text \<open>\<^verbatim>\<open>a[i]\<close> on an array: \<^verbatim>\<open>undefined\<close> out of range.\<close>

definition at_index :: "'a list \<Rightarrow> nat \<Rightarrow> 'a option" where
  "at_index xs i = (if i < length xs then Some (xs ! i) else None)"

section \<open>The categorizer\<close>

text \<open>
  \<^verbatim>\<open>categorizeDomain(hostname, path)\<close>: a cascade of \<^verbatim>\<open>if\<close> statements in the
  order of the source; \<^verbatim>\<open>null\<close> is \<open>None\<close>.
\<close>

definition categorizeDomain :: "string \<Rightarrow> string \<Rightarrow> string option" where
  "categorizeDomain hostname path =
    (let domain = toLowerCase hostname in
     if str_includes domain ''github.com'' then
       (if str_includes path ''/pull/'' then Some ''Work/Development/Code Review''
        else if str_includes path ''/issues/'' then Some ''Work/Development/Issues''
        else Some ''Work/Development'')
     else if str_includes domain ''gitlab.com'' \<or> str_includes domain ''bitbucket.org'' then
       Some ''Work/Development''
     else if str_includes domain ''stackoverflow.com'' \<or> str_includes domain ''stackexchange.com'' then
       Some ''Work/Development/Research''
     else if str_includes domain ''docs.'' \<or> str_includes domain ''documentation.'' \<or>
             str_includes domain ''developer.'' \<or> str_includes domain ''devdocs.io'' then
       Some ''Work/Development/Documentation''
     else if str_includes domain ''mail.google.com'' \<or> str_includes domain ''outlook.'' \<or>
             str_includes domain ''mail.yahoo.com'' then
       Some ''Work/Communication/Email''
     else if str_includes domain ''slack.com'' \<or> str_includes domain ''discord.com'' \<or>
             str_includes domain ''teams.microsoft.com'' then
       Some ''Work/Communication/Chat''
     else if str_includes domain ''meet.google.com'' \<or> str_includes domain ''zoom.us'' \<or>
             str_includes domain ''webex.com'' then
       Some ''Work/Communication/Meetings''
     else if str_includes domain ''jira'' \<or> str_includes domain ''asana.com'' \<or>
             str_includes domain ''trello.com'' \<or> str_includes domain ''monday.com'' \<or>
             str_includes domain ''linear.app'' \<or> str_includes domain ''notion.so'' then
       Some ''Work/Project Management''
     else if str_includes domain ''docs.google.com'' then
       (if str_includes path ''/document/'' then Some ''Work/Documentation/Writing''
        else if str_includes path ''/spreadsheets/'' then Some ''Work/Data/Spreadsheets''
        else if str_includes path ''/presentation/'' then Some ''Work/Presentation''
        else Some ''Work/Documentation'')
     else if str_includes domain ''drive.google.com'' then
       Some ''Work/Files''
     else if str_includes domain ''figma.com'' \<or> str_includes domain ''canva.com'' \<or>
             str_includes domain ''sketch.com'' then
       Some ''Work/Design''
     else if str_includes domain ''twitter.com'' \<or> str_includes domain ''x.com'' \<or>
             str_includes domain ''facebook.com'' \<or> str_includes domain ''instagram.com'' \<or>
             str_includes domain ''linkedin.com'' \<or> str_includes domain ''reddit.com'' then
       Some ''Personal/Social Media''
     else if str_includes domain ''youtube.com'' \<or> str_includes domain ''netflix.com'' \<or>
             str_includes domain ''twitch.tv'' \<or> str_includes domain ''spotify.com'' \<or>
             str_includes domain ''hulu.com'' \<or> str_includes domain ''disneyplus.com'' then
       Some ''Personal/Entertainment''
     else if str_includes domain ''amazon.'' \<or> str_includes domain ''ebay.'' \<or>
             str_includes domain ''etsy.com'' \<or> str_includes domain ''shopify.com'' then
       Some ''Personal/Shopping''
     else if str_includes domain ''news.'' \<or> str_includes domain ''cnn.com'' \<or>
             str_includes domain ''bbc.'' \<or> str_includes domain ''nytimes.com'' \<or>
             str_includes domain ''theguardian.com'' then
       Some ''Personal/News''
     else if str_includes domain ''udemy.com'' \<or> str_includes domain ''coursera.org'' \<or>
             str_includes domain ''edx.org'' \<or> str_includes domain ''linkedin.com/learning'' \<or>
             str_includes domain ''pluralsight.com'' then
       Some ''Research/Learning''
     else None)"

section \<open>Data model\<close>

text \<open>
  The tab object handed over by \<^verbatim>\<open>chrome.tabs.query\<close>.  \<^verbatim>\<open>url\<close>, \<^verbatim>\<open>title\<close> and
  \<^verbatim>\<open>audible\<close> may be \<^verbatim>\<open>undefined\<close>.
\<close>

record Tab =
  url :: "string option"
  title :: "string option"
  incognito :: bool
  audible :: "bool option"

text \<open>The three properties the script reads from a \<^verbatim>\<open>URL\<close> object.\<close>

record URL =
  hostname :: string
  pathname :: string
  protocol :: string

text \<open>
  The constructors \<^verbatim>\<open>new URL(s)\<close> and \<^verbatim>\<open>new RegExp(p, 'i')\<close> belong to the host and
  are parameters of the model.  Both may throw, which is \<open>None\<close>; a compiled
  pattern is its \<^verbatim>\<open>test\<close> method.
\<close>

type_synonym URL_ctor = "string \<Rightarrow> URL option"
type_synonym RegExp_ctor = "string \<Rightarrow> (string \<Rightarrow> bool) option"

text \<open>The global \<^verbatim>\<open>CONFIG\<close> object; \<^verbatim>\<open>bucketId\<close> is \<^verbatim>\<open>null\<close> until \<^verbatim>\<open>init\<close> sets it.\<close>

record Config =
  serverUrl :: string
  pollInterval :: nat
  pulsetime :: nat
  bucketId :: "string option"
  enabled :: bool
  trackUrls :: bool
  trackTitles :: bool
  excludePatterns :: "string list"
  excludeDomains :: "string list"
  incognitoTracking :: bool

definition CONFIG_initial :: Config where
  "CONFIG_initial =
     \<lparr>serverUrl = ''http://localhost:5600'', pollInterval = 5000, pulsetime = 6,
      bucketId = None, enabled = True, trackUrls = True, trackTitles = True,
      excludePatterns = [], excludeDomains = [''localhost'', ''127.0.0.1''],
      incognitoTracking = False\<rparr>"

text \<open>
  A settings object as written to \<^verbatim>\<open>chrome.storage.sync\<close> or carried by a
  \<^verbatim>\<open>saveSettings\<close> message: any subset of the keys that \<^verbatim>\<open>loadSettings\<close> reads.
  The options page also sends \<^verbatim>\<open>clientKeywords\<close>, which no function of the
  background script reads.
\<close>

record Settings =
  new_serverUrl :: "string option"
  new_enabled :: "bool option"
  new_trackUrls :: "bool option"
  new_trackTitles :: "bool option"
  new_excludePatterns :: "string list option"
  new_excludeDomains :: "string list option"
  new_incognitoTracking :: "bool option"

definition no_settings :: Settings where
  "no_settings =
     \<lparr>new_serverUrl = None, new_enabled = None, new_trackUrls = None,
      new_trackTitles = None, new_excludePatterns = None, new_excludeDomains = None,
      new_incognitoTracking = None\<rparr>"

text \<open>\<^verbatim>\<open>Object.assign(CONFIG, settings)\<close>: the keys present overwrite.\<close>

definition assign :: "Config \<Rightarrow> Settings \<Rightarrow> Config" where
  "assign c n =
     c\<lparr>serverUrl := (case new_serverUrl n of None \<Rightarrow> serverUrl c | Some v \<Rightarrow> v),
       enabled := (case new_enabled n of None \<Rightarrow> enabled c | Some v \<Rightarrow> v),
       trackUrls := (case new_trackUrls n of None \<Rightarrow> trackUrls c | Some v \<Rightarrow> v),
       trackTitles := (case new_trackTitles n of None \<Rightarrow> trackTitles c | Some v \<Rightarrow> v),
       excludePatterns :=
         (case new_excludePatterns n of None \<Rightarrow> excludePatterns c | Some v \<Rightarrow> v),
       excludeDomains :=
         (case new_excludeDomains n of None \<Rightarrow> excludeDomains c | Some v \<Rightarrow> v),
       incognitoTracking :=
         (case new_incognitoTracking n of None \<Rightarrow> incognitoTracking c | Some v \<Rightarrow> v)\<rparr>"

text \<open>The \<^verbatim>\<open>data\<close> object built by \<^verbatim>\<open>processTabData\<close>; \<^verbatim>\<open>category\<close> may be \<^verbatim>\<open>null\<close>.\<close>

record Data =
  data_url :: string
  data_title :: string
  data_domain :: string
  data_incognito :: bool
  data_tabCount :: nat
  data_audible :: bool
  data_protocol :: string
  data_path :: string
  data_category :: "string option"

text \<open>The heartbeat event, and the two requests the script posts.\<close>

record Event =
  timestamp :: string
  duration :: nat
  data :: Data

record BucketBody =
  client :: string
  type :: string
  body_hostname :: "string option"

datatype Request =
    POST_bucket string "string option" BucketBody
  | POST_heartbeat string "string option" nat Event

text \<open>
  \<^verbatim>\<open>POST_bucket server id body\<close> stands for the request to
  \<^verbatim>\<open>${serverUrl}/api/0/buckets/${bucketId}\<close> and \<^verbatim>\<open>POST_heartbeat server id p event\<close>
  for the one to \<^verbatim>\<open>${serverUrl}/api/0/buckets/${bucketId}/heartbeat?pulsetime=${p}\<close>.
  What \<^verbatim>\<open>await fetch(...)\<close> gives back: a rejected promise, or a response with
  its status; \<^verbatim>\<open>response.ok\<close> is a status from 200 to 299.
\<close>

datatype FetchResult = NetworkError | HttpResponse nat

definition ok :: "nat \<Rightarrow> bool" where
  "ok status = (200 \<le> status \<and> status \<le> 299)"

text \<open>The script's global state: \<^verbatim>\<open>CONFIG\<close> and the three \<^verbatim>\<open>let\<close> variables.\<close>

record State =
  CONFIG :: Config
  currentTab :: "Tab option"
  lastHeartbeat :: "nat option"
  isConnected :: bool

definition State_initial :: State where
  "State_initial =
     \<lparr>CONFIG = CONFIG_initial, currentTab = None, lastHeartbeat = None,
      isConnected = False\<rparr>"

datatype Error = TypeError | SyntaxError | HttpError nat | FetchError

section \<open>Bucket creation\<close>

text \<open>
  \<^verbatim>\<open>getHostname\<close>: the \<^verbatim>\<open>hostname\<close> of the server's info document, or
  \<^verbatim>\<open>'unknown'\<close> when the request fails or the field is missing or empty.
\<close>

datatype InfoResult = InfoFailed | Info "string option"

fun getHostname :: "InfoResult \<Rightarrow> string" where
  "getHostname InfoFailed = ''unknown''"
| "getHostname (Info None) = ''unknown''"
| "getHostname (Info (Some h)) = (if h = [] then ''unknown'' else h)"

text \<open>The part of \<^verbatim>\<open>init\<close> that names the bucket.\<close>

definition init_bucketId :: "InfoResult \<Rightarrow> State \<Rightarrow> State" where
  "init_bucketId info s =
     s\<lparr>CONFIG := (CONFIG s)\<lparr>bucketId :=
          Some (''aw-watcher-web-enhanced_'' @ getHostname info)\<rparr>\<rparr>"

text \<open>
  \<^verbatim>\<open>createBucket\<close> up to its \<^verbatim>\<open>await\<close>: the request it posts.  Building the body
  calls \<^verbatim>\<open>CONFIG.bucketId.split('_')[1]\<close>, which throws on a \<^verbatim>\<open>null\<close> bucket id.
  No variable of the script is assigned before the \<^verbatim>\<open>await\<close>.
\<close>

definition createBucket_fetch :: "Config \<Rightarrow> Error + Request" where
  "createBucket_fetch c =
     (case bucketId c of
        None \<Rightarrow> Inl TypeError
      | Some b \<Rightarrow>
          Inr (POST_bucket (serverUrl c) (bucketId c)
                 \<lparr>client = ''aw-watcher-web-enhanced'', type = ''web.tab.current'',
                  body_hostname = at_index (str_split CHR ''_'' b) 1\<rparr>))"

text \<open>
  \<^verbatim>\<open>createBucket\<close> after the \<^verbatim>\<open>await\<close>: the body of the \<^verbatim>\<open>try\<close> either sets the
  flag or throws, and the \<^verbatim>\<open>catch\<close> clears the flag.
\<close>

definition createBucket_response :: "FetchResult \<Rightarrow> Error + unit" where
  "createBucket_response r =
     (case r of
        NetworkError \<Rightarrow> Inl FetchError
      | HttpResponse status \<Rightarrow>
          if ok status \<or> status = 304 then Inr () else Inl (HttpError status))"

definition createBucket_resolve :: "FetchResult \<Rightarrow> State \<Rightarrow> State" where
  "createBucket_resolve r s =
     (case createBucket_response r of
        Inr u \<Rightarrow> s\<lparr>isConnected := True\<rparr>
      | Inl e \<Rightarrow> s\<lparr>isConnected := False\<rparr>)"

text \<open>
  The whole of \<^verbatim>\<open>createBucket\<close> against a server that answers the request with
  \<open>net\<close>; the state while the request is in flight is the first component.
\<close>

definition createBucket_pending :: "State \<Rightarrow> State" where
  "createBucket_pending s = s"

definition createBucket :: "(Request \<Rightarrow> FetchResult) \<Rightarrow> State \<Rightarrow> State" where
  "createBucket net s =
     (case createBucket_fetch (CONFIG s) of
        Inl e \<Rightarrow> s\<lparr>isConnected := False\<rparr>
      | Inr req \<Rightarrow> createBucket_resolve (net req) (createBucket_pending s))"

section \<open>Sampling: the privacy checks and the event data\<close>

text \<open>
  \<^verbatim>\<open>getCurrentTabData\<close>: \<open>tabs\<close> is the answer to the query for the active tab of
  the current window.  \<^verbatim>\<open>!tab.url\<close> holds for an undefined and for an empty url.
\<close>

definition internal_page :: "string \<Rightarrow> bool" where
  "internal_page u =
     (startsWith u ''chrome://'' \<or> startsWith u ''chrome-extension://'' \<or>
      startsWith u ''about:'' \<or> startsWith u ''moz-extension://'')"

definition getCurrentTabData :: "Config \<Rightarrow> Tab list \<Rightarrow> Tab option" where
  "getCurrentTabData c tabs =
     (case tabs of
        [] \<Rightarrow> None
      | tab # rest \<Rightarrow>
          if incognito tab \<and> \<not> incognitoTracking c then None
          else (case url tab of
                  None \<Rightarrow> None
                | Some u \<Rightarrow> if u = [] \<or> internal_page u then None else Some tab))"

text \<open>
  The callback of \<^verbatim>\<open>CONFIG.excludePatterns.some\<close>: \<^verbatim>\<open>pattern_test\<close> is the body of
  its \<^verbatim>\<open>try\<close>, where the constructor may throw, and \<^verbatim>\<open>pattern_excludes\<close> the
  callback with its \<^verbatim>\<open>catch\<close>, which answers \<^verbatim>\<open>false\<close>.
\<close>

definition pattern_test :: "RegExp_ctor \<Rightarrow> string \<Rightarrow> string \<Rightarrow> Error + bool" where
  "pattern_test RegExp u p =
     (case RegExp p of None \<Rightarrow> Inl SyntaxError | Some re \<Rightarrow> Inr (re u))"

definition pattern_excludes :: "RegExp_ctor \<Rightarrow> string \<Rightarrow> string \<Rightarrow> bool" where
  "pattern_excludes RegExp u p =
     (case pattern_test RegExp u p of Inl e \<Rightarrow> False | Inr b \<Rightarrow> b)"

text \<open>
  \<^verbatim>\<open>processTabData\<close>: \<^verbatim>\<open>processTabData_try\<close> is the body of the \<^verbatim>\<open>try\<close> for a tab
  with url \<open>u\<close>; the only statement of it that can throw is \<^verbatim>\<open>new URL(tab.url)\<close>.
  \<^verbatim>\<open>Array.prototype.some\<close> is \<open>list_ex\<close>.
\<close>

definition processTabData_try ::
  "URL_ctor \<Rightarrow> RegExp_ctor \<Rightarrow> Config \<Rightarrow> Tab \<Rightarrow> string \<Rightarrow> Error + Data option" where
  "processTabData_try newURL RegExp c tab u =
     (case newURL u of
        None \<Rightarrow> Inl TypeError
      | Some parsed \<Rightarrow>
          if list_ex (\<lambda>d. str_includes (hostname parsed) d) (excludeDomains c) then Inr None
          else if list_ex (\<lambda>p. pattern_excludes RegExp u p) (excludePatterns c) then Inr None
          else Inr (Some
            \<lparr>data_url = (if trackUrls c then u else ''[redacted]''),
             data_title =
               (if trackTitles c then (case title tab of None \<Rightarrow> [] | Some t \<Rightarrow> t)
                else ''[redacted]''),
             data_domain = hostname parsed,
             data_incognito = incognito tab,
             data_tabCount = 0,
             data_audible = (case audible tab of None \<Rightarrow> False | Some a \<Rightarrow> a),
             data_protocol = replaceFirst (protocol parsed) '':'' [],
             data_path = pathname parsed,
             data_category = categorizeDomain (hostname parsed) (pathname parsed)\<rparr>))"

definition processTabData :: "URL_ctor \<Rightarrow> RegExp_ctor \<Rightarrow> Config \<Rightarrow> Tab \<Rightarrow> Data option" where
  "processTabData newURL RegExp c tab =
     (case url tab of
        None \<Rightarrow> None
      | Some u \<Rightarrow>
          if u = [] then None
          else (case processTabData_try newURL RegExp c tab u of
                  Inl e \<Rightarrow> None
                | Inr r \<Rightarrow> r))"

section \<open>Heartbeats\<close>

text \<open>
  \<^verbatim>\<open>sendHeartbeat\<close> up to its \<^verbatim>\<open>await\<close>: the request it posts, or none when it
  returns at its first line.  \<open>now\<close> is \<^verbatim>\<open>new Date().toISOString()\<close>.  No variable of
  the script is assigned before the \<^verbatim>\<open>await\<close>.
\<close>

definition sendHeartbeat_fetch :: "string \<Rightarrow> State \<Rightarrow> Data \<Rightarrow> Request option" where
  "sendHeartbeat_fetch now s d =
     (if \<not> enabled (CONFIG s) \<or> \<not> isConnected s then None
      else Some (POST_heartbeat (serverUrl (CONFIG s)) (bucketId (CONFIG s))
                   (pulsetime (CONFIG s))
                   \<lparr>timestamp = now, duration = 0, data = d\<rparr>))"

text \<open>
  \<^verbatim>\<open>sendHeartbeat\<close> after the \<^verbatim>\<open>await\<close>, with \<open>t\<close> for \<^verbatim>\<open>Date.now()\<close>.  The second
  component is the delay of the timer that the \<^verbatim>\<open>catch\<close> sets for \<^verbatim>\<open>createBucket\<close>.
\<close>

definition sendHeartbeat_resolve :: "FetchResult \<Rightarrow> nat \<Rightarrow> State \<Rightarrow> State \<times> nat option" where
  "sendHeartbeat_resolve r t s =
     (case r of
        NetworkError \<Rightarrow> (s\<lparr>isConnected := False\<rparr>, Some 10000)
      | HttpResponse status \<Rightarrow>
          if \<not> ok status then (s\<lparr>isConnected := False\<rparr>, Some 10000)
          else (s\<lparr>lastHeartbeat := Some t, isConnected := True\<rparr>, None))"

text \<open>
  \<^verbatim>\<open>heartbeat\<close>, one sampling cycle, runs in two callbacks.  The first is the
  answer \<open>tabs\<close> to the query for the active tab, with the continuation of the
  \<^verbatim>\<open>await\<close>, which runs before any other callback: it builds the event data,
  issues the query for all tabs and assigns \<^verbatim>\<open>currentTab\<close>.  The second is the
  answer \<open>allTabs\<close> to that query: it sets the tab count and calls
  \<^verbatim>\<open>sendHeartbeat\<close>, which reads \<^verbatim>\<open>CONFIG\<close> and the connection flag as they are
  then.
\<close>

definition heartbeat_sample ::
  "URL_ctor \<Rightarrow> RegExp_ctor \<Rightarrow> Tab list \<Rightarrow> State \<Rightarrow> State \<times> Data option" where
  "heartbeat_sample newURL RegExp tabs s =
     (case getCurrentTabData (CONFIG s) tabs of
        None \<Rightarrow> (s, None)
      | Some tab \<Rightarrow>
          (case processTabData newURL RegExp (CONFIG s) tab of
             None \<Rightarrow> (s, None)
           | Some d \<Rightarrow> (s\<lparr>currentTab := Some tab\<rparr>, Some d)))"

definition heartbeat_send :: "Tab list \<Rightarrow> string \<Rightarrow> State \<Rightarrow> Data \<Rightarrow> Request option" where
  "heartbeat_send allTabs now s d =
     sendHeartbeat_fetch now s (d\<lparr>data_tabCount := length allTabs\<rparr>)"

text \<open>
  The cycle when no other callback runs between its two: the new state and
  the request posted, if any.
\<close>

definition heartbeat ::
  "URL_ctor \<Rightarrow> RegExp_ctor \<Rightarrow> Tab list \<Rightarrow> Tab list \<Rightarrow> string \<Rightarrow> State
     \<Rightarrow> State \<times> Request option" where
  "heartbeat newURL RegExp tabs allTabs now s =
     (case getCurrentTabData (CONFIG s) tabs of
        None \<Rightarrow> (s, None)
      | Some tab \<Rightarrow>
          (case processTabData newURL RegExp (CONFIG s) tab of
             None \<Rightarrow> (s, None)
           | Some d \<Rightarrow>
               (let s' = s\<lparr>currentTab := Some tab\<rparr>
                in (s', sendHeartbeat_fetch now s' (d\<lparr>data_tabCount := length allTabs\<rparr>)))))"

section \<open>The message handler\<close>

text \<open>
  A message of the popup or the options page, and what the listener does with
  it: the calls it makes, in the order of the source, and the new state.
  \<^verbatim>\<open>Store n\<close> is \<^verbatim>\<open>saveSettings(n)\<close>, which writes \<open>n\<close> to \<^verbatim>\<open>chrome.storage.sync\<close>;
  \<^verbatim>\<open>Call_heartbeat\<close> is a call of \<^verbatim>\<open>heartbeat()\<close>;
  \<^verbatim>\<open>Call_createBucket_then_respond\<close> is \<^verbatim>\<open>createBucket().then(...)\<close>, whose reply
  \<^verbatim>\<open>testConnection_reply\<close> is read from the state once the attempt has resolved.
\<close>

datatype Message =
    GetStatus | SetEnabled bool | GetSettings | SaveSettings Settings
  | TestConnection | Unknown string

datatype Response =
    Status bool bool "nat option" "string option" "string option"
  | Success
  | Current_settings Config
  | Connection bool
  | Error_response string

datatype Action =
    Store Settings | Call_heartbeat | Call_createBucket_then_respond
  | Respond Response

definition onMessage :: "Message \<Rightarrow> State \<Rightarrow> State \<times> Action list" where
  "onMessage m s =
     (case m of
        GetStatus \<Rightarrow>
          (s, [Respond (Status (enabled (CONFIG s)) (isConnected s) (lastHeartbeat s)
                          (case currentTab s of None \<Rightarrow> None | Some tab \<Rightarrow> url tab)
                          (bucketId (CONFIG s)))])
      | SetEnabled e \<Rightarrow>
          (s\<lparr>CONFIG := (CONFIG s)\<lparr>enabled := e\<rparr>\<rparr>,
           [Store (no_settings\<lparr>new_enabled := Some e\<rparr>)] @
           (if e then [Call_heartbeat] else []) @
           [Respond Success])
      | GetSettings \<Rightarrow> (s, [Respond (Current_settings (CONFIG s))])
      | SaveSettings n \<Rightarrow>
          (s\<lparr>CONFIG := assign (CONFIG s) n\<rparr>, [Store n, Respond Success])
      | TestConnection \<Rightarrow> (s, [Call_createBucket_then_respond])
      | Unknown k \<Rightarrow> (s, [Respond (Error_response ''Unknown message type'')]))"

definition testConnection_reply :: "State \<Rightarrow> Response" where
  "testConnection_reply s = Connection (isConnected s)"

text \<open>
  The connection state in the vocabulary of the status interface: the script
  keeps one boolean, which \<^verbatim>\<open>getStatus\<close> reports as \<^verbatim>\<open>connected\<close>.
\<close>

datatype ConnectionState = Disconnected | Checking | Connected

definition connectionState :: "State \<Rightarrow> ConnectionState" where
  "connectionState s = (if isConnected s then Connected else Disconnected)"

section \<open>Runs of the event loop\<close>

text \<open>
  The script runs on one thread, one callback at a time, and callbacks of
  different cycles and requests interleave.  Beside the variables of the
  script, the loop holds what is pending: the event data of the cycles that
  wait for the answer to their second query, the number of heartbeat requests
  and of bucket requests in flight, and the number of retry timers set.
\<close>

record Loop =
  script :: State
  sampled :: "Data list"
  heartbeats :: nat
  buckets :: nat
  timers :: nat

text \<open>
  A step is one callback: the first callback of a cycle; the second callback
  of the cycle whose data is at the given place among the pending ones; the
  answer to a bucket request; the answer to a heartbeat request; a retry timer
  that fires; a message to the listener.  A step is possible only when what it
  answers is pending.  It yields the new loop and the requests it posts.
\<close>

datatype Step =
    Active_tab "Tab list"
  | All_tabs nat "Tab list" string
  | Bucket_result FetchResult
  | Heartbeat_result FetchResult nat
  | Timer
  | Incoming Message

text \<open>
  A call of \<^verbatim>\<open>createBucket\<close> runs up to its \<^verbatim>\<open>await\<close>: it posts the request, or
  fails to build it and clears the flag in its \<^verbatim>\<open>catch\<close>.
\<close>

definition start_createBucket :: "Loop \<Rightarrow> Loop \<times> Request list" where
  "start_createBucket l =
     (case createBucket_fetch (CONFIG (script l)) of
        Inl e \<Rightarrow> (l\<lparr>script := (script l)\<lparr>isConnected := False\<rparr>\<rparr>, [])
      | Inr req \<Rightarrow> (l\<lparr>buckets := Suc (buckets l)\<rparr>, [req]))"

text \<open>
  The calls of the message handler.  A call of \<^verbatim>\<open>heartbeat\<close> issues the first
  query of a cycle and touches no variable: its callback is a later step.
\<close>

fun perform :: "Action \<Rightarrow> Loop \<Rightarrow> Loop \<times> Request list" where
  "perform Call_createBucket_then_respond l = start_createBucket l"
| "perform Call_heartbeat l = (l, [])"
| "perform (Store n) l = (l, [])"
| "perform (Respond r) l = (l, [])"

fun perform_all :: "Action list \<Rightarrow> Loop \<Rightarrow> Loop \<times> Request list" where
  "perform_all [] l = (l, [])"
| "perform_all (a # rest) l =
     (case perform a l of
        (l', posted) \<Rightarrow>
          (case perform_all rest l' of
             (l'', later) \<Rightarrow> (l'', posted @ later)))"

fun step :: "URL_ctor \<Rightarrow> RegExp_ctor \<Rightarrow> Step \<Rightarrow> Loop \<Rightarrow> (Loop \<times> Request list) option" where
  "step newURL RegExp (Active_tab tabs) l =
     (case heartbeat_sample newURL RegExp tabs (script l) of
        (s', None) \<Rightarrow> Some (l\<lparr>script := s'\<rparr>, [])
      | (s', Some d) \<Rightarrow> Some (l\<lparr>script := s', sampled := sampled l @ [d]\<rparr>, []))"
| "step newURL RegExp (All_tabs i allTabs now) l =
     (if i < length (sampled l) then
        (case heartbeat_send allTabs now (script l) (sampled l ! i) of
           None \<Rightarrow>
             Some (l\<lparr>sampled := take i (sampled l) @ drop (Suc i) (sampled l)\<rparr>, [])
         | Some req \<Rightarrow>
             Some (l\<lparr>sampled := take i (sampled l) @ drop (Suc i) (sampled l),
                     heartbeats := Suc (heartbeats l)\<rparr>, [req]))
      else None)"
| "step newURL RegExp (Bucket_result r) l =
     (if buckets l = 0 then None
      else Some (l\<lparr>script := createBucket_resolve r (script l),
                   buckets := buckets l - 1\<rparr>, []))"
| "step newURL RegExp (Heartbeat_result r t) l =
     (if heartbeats l = 0 then None
      else (case sendHeartbeat_resolve r t (script l) of
              (s', None) \<Rightarrow> Some (l\<lparr>script := s', heartbeats := heartbeats l - 1\<rparr>, [])
            | (s', Some delay) \<Rightarrow>
                Some (l\<lparr>script := s', heartbeats := heartbeats l - 1,
                        timers := Suc (timers l)\<rparr>, [])))"
| "step newURL RegExp Timer l =
     (if timers l = 0 then None
      else Some (start_createBucket (l\<lparr>timers := timers l - 1\<rparr>)))"
| "step newURL RegExp (Incoming m) l =
     (case onMessage m (script l) of
        (s', actions) \<Rightarrow> Some (perform_all actions (l\<lparr>script := s'\<rparr>)))"

fun run :: "URL_ctor \<Rightarrow> RegExp_ctor \<Rightarrow> Step list \<Rightarrow> Loop \<Rightarrow> (Loop \<times> Request list) option" where
  "run newURL RegExp [] l = Some (l, [])"
| "run newURL RegExp (x # xs) l =
     (case step newURL RegExp x l of
        None \<Rightarrow> None
      | Some (l', posted) \<Rightarrow>
          (case run newURL RegExp xs l' of
             None \<Rightarrow> None
           | Some (l'', later) \<Rightarrow> Some (l'', posted @ later)))"

text \<open>
  The two kinds of step that set the flag: a bucket request answered with
  success, and a heartbeat request answered with success.
\<close>

fun bucket_success :: "Step \<Rightarrow> bool" where
  "bucket_success (Bucket_result r) =
     (case r of NetworkError \<Rightarrow> False | HttpResponse status \<Rightarrow> ok status \<or> status = 304)"
| "bucket_success (Active_tab tabs) = False"
| "bucket_success (All_tabs i allTabs now) = False"
| "bucket_success (Heartbeat_result r t) = False"
| "bucket_success Timer = False"
| "bucket_success (Incoming m) = False"

fun heartbeat_success :: "Step \<Rightarrow> bool" where
  "heartbeat_success (Heartbeat_result r t) =
     (case r of NetworkError \<Rightarrow> False | HttpResponse status \<Rightarrow> ok status)"
| "heartbeat_success (Active_tab tabs) = False"
| "heartbeat_success (All_tabs i allTabs now) = False"
| "heartbeat_success (Bucket_result r) = False"
| "heartbeat_success Timer = False"
| "heartbeat_success (Incoming m) = False"

fun is_heartbeat :: "Request \<Rightarrow> bool" where
  "is_heartbeat (POST_heartbeat server b p ev) = True"
| "is_heartbeat (POST_bucket server b body) = False"

text \<open>
  What the steps of a disconnected run keep: \<open>quiet l\<close> says that the flag is clear, and \<open>silent posted\<close>
  that no heartbeat is among the requests posted.
\<close>

definition quiet :: "Loop \<Rightarrow> bool" where
  "quiet l = (\<not> isConnected (script l))"

definition silent :: "Request list \<Rightarrow> bool" where
  "silent posted = (filter is_heartbeat posted = [])"

section \<open>An excerpt of the host's constructors\<close>

text \<open>
  The instances below run the model on concrete tabs.  For them, the answers
  of \<^verbatim>\<open>new URL\<close> and of \<^verbatim>\<open>new RegExp(p, 'i')\<close> on the few strings they use: the
  pattern \<^verbatim>\<open>(\<close> is an unterminated group and does not compile, and \<^verbatim>\<open>pull\<close>
  matches the urls that hold these four letters in any case.  The parser puts
  the host of an \<^verbatim>\<open>http\<close> or \<^verbatim>\<open>https\<close> url in lower case and leaves the host of a
  url with another scheme, here \<^verbatim>\<open>foo\<close>, as it is written.  Strings outside the
  excerpt are answered as failures and are not used.
\<close>

definition example_URL :: URL_ctor where
  "example_URL u =
     (if u = ''https://github.com/user/repo/pull/123'' then
        Some \<lparr>hostname = ''github.com'', pathname = ''/user/repo/pull/123'',
              protocol = ''https:''\<rparr>
      else if u = ''http://localhost:5600/'' then
        Some \<lparr>hostname = ''localhost'', pathname = ''/'', protocol = ''http:''\<rparr>
      else if u = ''foo://LOCALHOST/x'' then
        Some \<lparr>hostname = ''LOCALHOST'', pathname = ''/x'', protocol = ''foo:''\<rparr>
      else None)"

definition example_RegExp :: RegExp_ctor where
  "example_RegExp p =
     (if p = ''pull'' then Some (\<lambda>u. str_includes (toLowerCase u) ''pull'') else None)"

definition example_tab :: Tab where
  "example_tab =
     \<lparr>url = Some ''https://github.com/user/repo/pull/123'',
      title = Some ''Fix bug #456 - Pull Request'', incognito = False,
      audible = Some False\<rparr>"

text \<open>
  A state the script reaches: \<^verbatim>\<open>init\<close> has named the bucket after the host
  \<^verbatim>\<open>laptop\<close> and the server has answered the bucket request with 200.
\<close>

definition example_state :: State where
  "example_state =
     createBucket_resolve (HttpResponse 200)
       (init_bucketId (Info (Some ''laptop'')) State_initial)"

definition example_now :: string where
  "example_now = ''2024-01-15T10:30:00.000Z''"

definition example_exclude :: "string list \<Rightarrow> string list \<Rightarrow> State" where
  "example_exclude domains patterns =
     example_state\<lparr>CONFIG := (CONFIG example_state)
       \<lparr>excludePatterns := patterns, excludeDomains := domains\<rparr>\<rparr>"

definition example_data :: Data where
  "example_data =
     \<lparr>data_url = ''https://github.com/user/repo/pull/123'',
      data_title = ''Fix bug #456 - Pull Request'', data_domain = ''github.com'',
      data_incognito = False, data_tabCount = 15, data_audible = False,
      data_protocol = ''https'', data_path = ''/user/repo/pull/123'',
      data_category = Some ''Work/Development/Code Review''\<rparr>"

definition example_upper_tab :: Tab where
  "example_upper_tab =
     \<lparr>url = Some ''foo://LOCALHOST/x'', title = Some ''Local page'', incognito = False,
      audible = None\<rparr>"

text \<open>
  The loop with the example state and nothing pending; the heartbeat that a
  cycle of the example tab posts there; and the loop after that cycle and a
  failed connection test, with the heartbeat still in flight.
\<close>

definition example_loop :: Loop where
  "example_loop =
     \<lparr>script = example_state, sampled = [], heartbeats = 0, buckets = 0, timers = 0\<rparr>"

definition example_request :: Request where
  "example_request =
     POST_heartbeat ''http://localhost:5600'' (Some ''aw-watcher-web-enhanced_laptop'') 6
       \<lparr>timestamp = example_now, duration = 0,
        data = example_data\<lparr>data_tabCount := 1\<rparr>\<rparr>"

definition example_bucket_request :: Request where
  "example_bucket_request =
     POST_bucket ''http://localhost:5600'' (Some ''aw-watcher-web-enhanced_laptop'')
       \<lparr>client = ''aw-watcher-web-enhanced'', type = ''web.tab.current'',
        body_hostname = Some ''laptop''\<rparr>"

definition example_before :: "Step list" where
  "example_before =
     [Active_tab [example_tab], All_tabs 0 [example_tab] example_now,
      Incoming TestConnection, Bucket_result NetworkError]"

definition example_failed_loop :: Loop where
  "example_failed_loop =
     \<lparr>script = example_state\<lparr>currentTab := Some example_tab, isConnected := False\<rparr>,
      sampled = [], heartbeats = 1, buckets = 0, timers = 0\<rparr>"

definition example_after :: "Step list" where
  "example_after =
     [Heartbeat_result (HttpResponse 200) 7, Active_tab [example_tab],
      All_tabs 0 [example_tab] example_now]"

definition example_steps :: "Step list" where
  "example_steps =
     [Active_tab [example_tab], Heartbeat_result (HttpResponse 500) 7,
      All_tabs 0 [example_tab] example_now, Timer, Incoming (SetEnabled True),
      Bucket_result (HttpResponse 404), Active_tab [example_tab],
      All_tabs 0 [] example_now]"

definition example_flags :: "bool \<Rightarrow> bool \<Rightarrow> State" where
  "example_flags urls titles =
     example_state\<lparr>CONFIG := (CONFIG example_state)
       \<lparr>trackUrls := urls, trackTitles := titles\<rparr>\<rparr>"

section \<open>Facts about the string primitives\<close>

text \<open>The equations that unfold the example environment and one sampling cycle.\<close>

lemmas example_defs =
  example_state_def example_tab_def example_URL_def example_RegExp_def example_now_def
  State_initial_def CONFIG_initial_def init_bucketId_def createBucket_resolve_def
  createBucket_response_def ok_def

lemmas cycle_defs =
  heartbeat_def getCurrentTabData_def internal_page_def processTabData_def
  processTabData_try_def pattern_excludes_def pattern_test_def sendHeartbeat_fetch_def
  Let_def

lemma startsWith_prefix: "startsWith s d \<longleftrightarrow> prefix d s"
  by (induction s d rule: startsWith.induct) auto

text \<open>\<^verbatim>\<open>includes\<close> is the test for a contiguous substring.\<close>

lemma str_includes_sublist: "str_includes s d \<longleftrightarrow> sublist d s"
proof (induction s)
  case Nil
  then show ?case by simp
next
  case (Cons x xs)
  then show ?case
    by (simp add: startsWith_prefix sublist_Cons_right del: startsWith.simps)
qed

lemma str_includes_trans:
  "str_includes s d \<Longrightarrow> str_includes d e \<Longrightarrow> str_includes s e"
  unfolding str_includes_sublist by (rule sublist_order.order_trans)

lemma split_nonempty: "str_split c s \<noteq> []"
  by (induction s) (auto split: list.splits)

lemma split_hd: "hd (str_split c s) = takeWhile (\<lambda>x. x \<noteq> c) s"
  using split_nonempty by (induction s) (auto split: list.splits)

lemma split_append:
  "c \<notin> set pre \<Longrightarrow> str_split c (pre @ c # s) = pre # str_split c s"
  by (induction pre) (auto split: list.splits)

section \<open>The categorizer on the documented examples\<close>

text \<open>
  Claim C8.  For the host \<^verbatim>\<open>github.com\<close> the categorizer answers with the label
  of the first path rule that matches, \<^verbatim>\<open>/pull/\<close> before \<^verbatim>\<open>/issues/\<close>, and with
  the base label otherwise; on the three documented paths it answers
  \<^verbatim>\<open>Work/Development/Code Review\<close>, \<^verbatim>\<open>Work/Development/Issues\<close> and
  \<^verbatim>\<open>Work/Development\<close>.
\<close>

theorem categorize_github:
  "categorizeDomain ''github.com'' path =
      (if str_includes path ''/pull/'' then Some ''Work/Development/Code Review''
       else if str_includes path ''/issues/'' then Some ''Work/Development/Issues''
       else Some ''Work/Development'')
   \<and> categorizeDomain ''github.com'' ''/user/repo/pull/123'' =
       Some ''Work/Development/Code Review''
   \<and> categorizeDomain ''github.com'' ''/user/repo/issues/1'' =
       Some ''Work/Development/Issues''
   \<and> categorizeDomain ''github.com'' ''/user/repo'' = Some ''Work/Development''"
  by (simp add: categorizeDomain_def toLowerCase_def lowerChar_def)

text \<open>
  Claim C1.  On the host \<^verbatim>\<open>docs.google.com\<close> with the path \<^verbatim>\<open>/spreadsheets/d/1\<close>
  the categorizer does not reach the Google Workspace rule: the documentation
  rule above it tests for \<^verbatim>\<open>docs.\<close>, which this host contains, and the answer
  is \<^verbatim>\<open>Work/Development/Documentation\<close> where the rule for spreadsheets and the
  extension's category table give \<^verbatim>\<open>Work/Data/Spreadsheets\<close>.
\<close>

theorem categorize_google_spreadsheet:
  "categorizeDomain ''docs.google.com'' ''/spreadsheets/d/1'' =
     Some ''Work/Development/Documentation''"
  by (simp add: categorizeDomain_def toLowerCase_def lowerChar_def)

text \<open>
  The same holds for every input: a host that contains \<^verbatim>\<open>docs.google.com\<close>
  contains \<^verbatim>\<open>docs.\<close>, so no host and no path is ever given the spreadsheet label.
\<close>

lemma spreadsheet_label_unreachable:
  "categorizeDomain h p \<noteq> Some ''Work/Data/Spreadsheets''"
proof -
  have sub: "str_includes ''docs.google.com'' ''docs.''" by simp
  have "str_includes d ''docs.google.com'' \<Longrightarrow> str_includes d ''docs.''" for d
    using sub by (rule str_includes_trans[rotated])
  then show ?thesis
    unfolding categorizeDomain_def Let_def by auto
qed

section \<open>The bucket request\<close>

lemma body_hostname_takeWhile:
  "at_index (str_split CHR ''_'' (''aw-watcher-web-enhanced_'' @ h)) 1 =
     Some (takeWhile (\<lambda>x. x \<noteq> CHR ''_'') h)"
proof -
  have "str_split CHR ''_'' (''aw-watcher-web-enhanced'' @ CHR ''_'' # h) =
          ''aw-watcher-web-enhanced'' # str_split CHR ''_'' h"
    by (rule split_append) simp
  moreover obtain p ps where "str_split CHR ''_'' h = p # ps"
    using split_nonempty[of "CHR ''_''" h] by (cases "str_split CHR ''_'' h") auto
  moreover from this have "p = takeWhile (\<lambda>x. x \<noteq> CHR ''_'') h"
    using split_hd[of "CHR ''_''" h] by simp
  ultimately show ?thesis
    by (simp add: at_index_def)
qed

text \<open>
  After \<^verbatim>\<open>init\<close> has named the bucket, the body of the bucket request carries
  the host name up to its first underscore.
\<close>

lemma createBucket_fetch_hostname:
  "createBucket_fetch (CONFIG (init_bucketId info s)) =
     Inr (POST_bucket (serverUrl (CONFIG s))
            (Some (''aw-watcher-web-enhanced_'' @ getHostname info))
            \<lparr>client = ''aw-watcher-web-enhanced'', type = ''web.tab.current'',
             body_hostname = Some (takeWhile (\<lambda>x. x \<noteq> CHR ''_'') (getHostname info))\<rparr>)"
  using body_hostname_takeWhile[of "getHostname info"]
  by (simp add: createBucket_fetch_def init_bucketId_def)

text \<open>
  Claim C5.  The host name in the body of the bucket request is meant to be the
  one the server reported, the one in the bucket id.  For the reported name
  \<^verbatim>\<open>my_host\<close> the bucket id is \<^verbatim>\<open>aw-watcher-web-enhanced_my_host\<close> and the body
  carries \<^verbatim>\<open>my\<close>: \<^verbatim>\<open>split('_')[1]\<close> is the piece between the first and the second
  underscore of the id.
\<close>

theorem createBucket_hostname_underscore:
  "createBucket_fetch (CONFIG (init_bucketId (Info (Some ''my_host'')) State_initial)) =
     Inr (POST_bucket ''http://localhost:5600'' (Some ''aw-watcher-web-enhanced_my_host'')
            \<lparr>client = ''aw-watcher-web-enhanced'', type = ''web.tab.current'',
             body_hostname = Some ''my''\<rparr>)"
  by (simp add: createBucket_fetch_def init_bucketId_def State_initial_def
      CONFIG_initial_def at_index_def)

section \<open>The connection flag\<close>

lemma createBucket_resolve_isConnected:
  "isConnected (createBucket_resolve r s) = bucket_success (Bucket_result r)"
  by (cases r) (simp_all add: createBucket_resolve_def createBucket_response_def)

lemma sendHeartbeat_resolve_isConnected:
  "isConnected (fst (sendHeartbeat_resolve r t s)) = heartbeat_success (Heartbeat_result r t)"
  by (cases r) (simp_all add: sendHeartbeat_resolve_def)

lemma onMessage_isConnected: "isConnected (fst (onMessage m s)) = isConnected s"
  by (cases m) (simp_all add: onMessage_def)

text \<open>
  Claim C3, as the code has it.  A bucket attempt, whoever starts it, leaves the
  connection state as it was while its request is in flight: the script has no
  state between connected and disconnected.  When the request resolves, the
  state is connected exactly when the server answered with a status from 200
  to 299 or with 304, and disconnected after a network error or any other
  status; an attempt that cannot build its request ends disconnected.  The
  \<^verbatim>\<open>testConnection\<close> message starts one attempt and replies with the flag it
  leaves.
\<close>

theorem createBucket_connection_state:
  "connectionState (createBucket_pending s) = connectionState s
   \<and> connectionState (createBucket_resolve r s) =
       (case r of
          NetworkError \<Rightarrow> Disconnected
        | HttpResponse status \<Rightarrow>
            if (200 \<le> status \<and> status \<le> 299) \<or> status = 304 then Connected
            else Disconnected)
   \<and> connectionState (createBucket net s) =
       (case createBucket_fetch (CONFIG s) of
          Inl e \<Rightarrow> Disconnected
        | Inr req \<Rightarrow> connectionState (createBucket_resolve (net req) s))
   \<and> onMessage TestConnection s = (s, [Call_createBucket_then_respond])
   \<and> testConnection_reply (createBucket_resolve r s) =
       Connection (connectionState (createBucket_resolve r s) = Connected)"
  by (cases r)
    (simp_all add: connectionState_def createBucket_pending_def createBucket_resolve_def
      createBucket_response_def createBucket_def ok_def onMessage_def
      testConnection_reply_def split: sum.splits)

text \<open>
  The claim as written fails: with the flag set, the state during an attempt
  is still connected, not a checking state, and \<^verbatim>\<open>getStatus\<close> reports so.
\<close>

theorem createBucket_no_checking_state:
  "connectionState (createBucket_pending example_state) = Connected
   \<and> connectionState (createBucket_pending example_state) \<noteq> Checking
   \<and> snd (onMessage GetStatus (createBucket_pending example_state)) =
       [Respond (Status True True None None (Some ''aw-watcher-web-enhanced_laptop''))]"
  by (simp add: connectionState_def createBucket_pending_def onMessage_def example_state_def
      createBucket_resolve_def createBucket_response_def ok_def init_bucketId_def
      State_initial_def CONFIG_initial_def)

section \<open>Dropping events while disconnected\<close>

lemma sendHeartbeat_fetch_disconnected:
  "\<not> isConnected s \<Longrightarrow> sendHeartbeat_fetch now s d = None"
  by (simp add: sendHeartbeat_fetch_def)

text \<open>The uninterrupted cycle is its two callbacks, one after the other.\<close>

lemma heartbeat_two_callbacks:
  "heartbeat newURL RegExp tabs allTabs now s =
     (case heartbeat_sample newURL RegExp tabs s of
        (s', None) \<Rightarrow> (s', None)
      | (s', Some d) \<Rightarrow> (s', heartbeat_send allTabs now s' d))"
  by (simp add: heartbeat_def heartbeat_sample_def heartbeat_send_def Let_def
      split: option.splits)

lemma heartbeat_sample_isConnected:
  "isConnected (fst (heartbeat_sample newURL RegExp tabs s)) = isConnected s"
  by (simp add: heartbeat_sample_def split: option.splits)

text \<open>
  A sampling cycle in a disconnected state posts nothing and assigns at most
  \<^verbatim>\<open>currentTab\<close>.
\<close>

lemma heartbeat_disconnected:
  assumes "\<not> isConnected s"
  shows "\<exists>t. heartbeat newURL RegExp tabs allTabs now s = (s\<lparr>currentTab := t\<rparr>, None)"
proof (cases "getCurrentTabData (CONFIG s) tabs")
  case None
  then have "heartbeat newURL RegExp tabs allTabs now s = (s\<lparr>currentTab := currentTab s\<rparr>, None)"
    by (simp add: heartbeat_def)
  then show ?thesis ..
next
  case (Some tab)
  show ?thesis
  proof (cases "processTabData newURL RegExp (CONFIG s) tab")
    case None
    with Some
    have "heartbeat newURL RegExp tabs allTabs now s = (s\<lparr>currentTab := currentTab s\<rparr>, None)"
      by (simp add: heartbeat_def)
    then show ?thesis ..
  next
    case (Some d)
    with \<open>getCurrentTabData (CONFIG s) tabs = Some tab\<close> assms
    have "heartbeat newURL RegExp tabs allTabs now s = (s\<lparr>currentTab := Some tab\<rparr>, None)"
      by (simp add: heartbeat_def Let_def sendHeartbeat_fetch_def)
    then show ?thesis ..
  qed
qed

lemma silent_append: "silent (p @ q) \<longleftrightarrow> silent p \<and> silent q"
  by (simp add: silent_def)

lemma start_createBucket_quiet:
  assumes "quiet l" and "start_createBucket l = (l', posted)"
  shows "quiet l' \<and> silent posted \<and> heartbeats l' = heartbeats l"
  using assms
  by (auto simp add: start_createBucket_def quiet_def silent_def createBucket_fetch_def
      split: sum.splits option.splits)

lemma perform_quiet:
  assumes "quiet l" and "perform a l = (l', posted)"
  shows "quiet l' \<and> silent posted \<and> heartbeats l' = heartbeats l"
proof (cases a)
  case Call_createBucket_then_respond
  with assms start_createBucket_quiet[of l l' posted] show ?thesis by simp
qed (use assms in \<open>auto simp add: silent_def\<close>)

lemma perform_all_quiet:
  "quiet l \<Longrightarrow> perform_all actions l = (l', posted) \<Longrightarrow>
     quiet l' \<and> silent posted \<and> heartbeats l' = heartbeats l"
proof (induction actions arbitrary: l l' posted)
  case Nil
  then show ?case by (simp add: silent_def)
next
  case (Cons a rest)
  obtain l1 p1 where one: "perform a l = (l1, p1)" by (cases "perform a l")
  obtain l2 p2 where two: "perform_all rest l1 = (l2, p2)" by (cases "perform_all rest l1")
  from one two Cons.prems(2) have res: "l' = l2" "posted = p1 @ p2" by simp_all
  from perform_quiet[OF Cons.prems(1) one]
  have q1: "quiet l1" "silent p1" "heartbeats l1 = heartbeats l" by simp_all
  from Cons.IH[OF q1(1) two]
  have "quiet l2" "silent p2" "heartbeats l2 = heartbeats l1" by simp_all
  with q1 res show ?case by (simp add: silent_append)
qed

lemma step_quiet:
  assumes "quiet l" and "\<not> bucket_success x"
    and "heartbeats l = 0 \<or> \<not> heartbeat_success x"
    and "step newURL RegExp x l = Some (l', posted)"
  shows "quiet l' \<and> silent posted \<and> (heartbeats l = 0 \<longrightarrow> heartbeats l' = 0)"
proof (cases x)
  case (Active_tab tabs)
  with assms(1,4) heartbeat_sample_isConnected[of newURL RegExp tabs "script l"]
  show ?thesis
    by (auto simp add: quiet_def silent_def split: prod.splits option.splits)
next
  case (All_tabs i allTabs now)
  from assms(1) have "heartbeat_send allTabs now (script l) (sampled l ! i) = None"
    by (simp add: heartbeat_send_def quiet_def sendHeartbeat_fetch_disconnected)
  with All_tabs assms(1,4) show ?thesis
    by (auto simp add: quiet_def silent_def split: if_splits)
next
  case (Bucket_result r)
  with assms(2,4) show ?thesis
    by (auto simp add: quiet_def silent_def createBucket_resolve_isConnected
        simp del: bucket_success.simps split: if_splits)
next
  case (Heartbeat_result r t)
  with assms(4) have inflight: "heartbeats l \<noteq> 0"
    by (auto split: if_splits)
  with assms(3) have fail: "\<not> heartbeat_success (Heartbeat_result r t)"
    using Heartbeat_result by simp
  obtain s' timer where res: "sendHeartbeat_resolve r t (script l) = (s', timer)"
    by (cases "sendHeartbeat_resolve r t (script l)")
  with fail sendHeartbeat_resolve_isConnected[of r t "script l"]
  have "\<not> isConnected s'" by simp
  with Heartbeat_result assms(4) inflight res show ?thesis
    by (auto simp add: quiet_def silent_def split: option.splits)
next
  case Timer
  with assms(4) obtain st: "start_createBucket (l\<lparr>timers := timers l - 1\<rparr>) = (l', posted)"
    by (auto split: if_splits)
  from assms(1) have "quiet (l\<lparr>timers := timers l - 1\<rparr>)" by (simp add: quiet_def)
  from start_createBucket_quiet[OF this st] show ?thesis by simp
next
  case (Incoming m)
  obtain s' actions where om: "onMessage m (script l) = (s', actions)"
    by (cases "onMessage m (script l)")
  with Incoming assms(4) have pa: "perform_all actions (l\<lparr>script := s'\<rparr>) = (l', posted)"
    by simp
  from om onMessage_isConnected[of m "script l"] assms(1)
  have "quiet (l\<lparr>script := s'\<rparr>)" by (simp add: quiet_def)
  from perform_all_quiet[OF this pa] show ?thesis by simp
qed

lemma run_quiet:
  "quiet l \<Longrightarrow> list_all (\<lambda>x. \<not> bucket_success x) steps \<Longrightarrow>
   heartbeats l = 0 \<or> list_all (\<lambda>x. \<not> heartbeat_success x) steps \<Longrightarrow>
   run newURL RegExp steps l = Some (l', posted) \<Longrightarrow>
     quiet l' \<and> silent posted"
proof (induction steps arbitrary: l l' posted)
  case Nil
  then show ?case by (simp add: silent_def)
next
  case (Cons x xs)
  from Cons.prems(4) obtain l1 p1 where one: "step newURL RegExp x l = Some (l1, p1)"
    by (auto split: option.splits)
  with Cons.prems(4) obtain p2 where two: "run newURL RegExp xs l1 = Some (l', p2)"
    and res: "posted = p1 @ p2"
    by (auto split: option.splits)
  from Cons.prems(2) have nb: "\<not> bucket_success x"
    and nbs: "list_all (\<lambda>x. \<not> bucket_success x) xs" by simp_all
  from Cons.prems(3) have nh: "heartbeats l = 0 \<or> \<not> heartbeat_success x" by auto
  from step_quiet[OF Cons.prems(1) nb nh one]
  have q1: "quiet l1" "silent p1" "heartbeats l = 0 \<longrightarrow> heartbeats l1 = 0" by simp_all
  with Cons.prems(3)
  have "heartbeats l1 = 0 \<or> list_all (\<lambda>x. \<not> heartbeat_success x) xs" by auto
  from Cons.IH[OF q1(1) nbs this two] q1(2) res show ?case
    by (simp add: silent_append)
qed

text \<open>
  Claim C4, as the code has it.  In a disconnected state \<^verbatim>\<open>sendHeartbeat\<close> posts
  nothing for any event, and a whole sampling cycle posts nothing and changes
  no variable of the script but \<^verbatim>\<open>currentTab\<close>: the script has no queue, so the
  event is gone.  The state is disconnected after every failed bucket attempt
  and after every failed heartbeat, from whatever state \<open>s0\<close> they resolve in.
  From a disconnected state, every run of callbacks, in any interleaving, that
  holds no successful answer to a bucket request posts no heartbeat and ends
  disconnected, provided that no heartbeat request is in flight at its start
  or that none is answered with success in it.
\<close>

theorem disconnected_drops_events:
  assumes "connectionState (script l) = Disconnected"
    and "list_all (\<lambda>x. \<not> bucket_success x) steps"
    and "heartbeats l = 0 \<or> list_all (\<lambda>x. \<not> heartbeat_success x) steps"
    and "run newURL RegExp steps l = Some (l', posted)"
  shows "sendHeartbeat_fetch now (script l) d = None
    \<and> (\<exists>t. heartbeat newURL RegExp tabs allTabs now (script l) =
             ((script l)\<lparr>currentTab := t\<rparr>, None))
    \<and> filter is_heartbeat posted = []
    \<and> connectionState (script l') = Disconnected
    \<and> connectionState (createBucket_resolve r s0) =
        (if bucket_success (Bucket_result r) then Connected else Disconnected)
    \<and> connectionState (fst (sendHeartbeat_resolve r t s0)) =
        (if heartbeat_success (Heartbeat_result r t) then Connected else Disconnected)"
proof -
  from assms(1) have dis: "\<not> isConnected (script l)"
    by (simp add: connectionState_def split: if_splits)
  have a: "sendHeartbeat_fetch now (script l) d = None"
    using dis by (rule sendHeartbeat_fetch_disconnected)
  have b: "\<exists>t. heartbeat newURL RegExp tabs allTabs now (script l) =
      ((script l)\<lparr>currentTab := t\<rparr>, None)"
    using dis by (rule heartbeat_disconnected)
  from dis have "quiet l" by (simp add: quiet_def)
  from run_quiet[OF this assms(2,3,4)]
  have c: "filter is_heartbeat posted = [] \<and> connectionState (script l') = Disconnected"
    by (simp add: quiet_def silent_def connectionState_def)
  have d: "connectionState (createBucket_resolve r s0) =
        (if bucket_success (Bucket_result r) then Connected else Disconnected)"
    by (simp add: connectionState_def createBucket_resolve_isConnected
        del: bucket_success.simps)
  have e: "connectionState (fst (sendHeartbeat_resolve r t s0)) =
        (if heartbeat_success (Heartbeat_result r t) then Connected else Disconnected)"
    by (simp add: connectionState_def sendHeartbeat_resolve_isConnected
        del: heartbeat_success.simps)
  from a b c d e show ?thesis by blast
qed

lemmas loop_defs =
  example_loop_def example_failed_loop_def example_request_def example_bucket_request_def
  example_data_def heartbeat_sample_def heartbeat_send_def start_createBucket_def
  createBucket_fetch_def onMessage_def sendHeartbeat_resolve_def at_index_def
  categorizeDomain_def toLowerCase_def lowerChar_def

text \<open>
  An instance: the loop after a failed connection test, with one heartbeat in
  flight.  That heartbeat fails, a cycle begun before its answer ends after
  it, the retry timer fires and its bucket request fails, a \<^verbatim>\<open>setEnabled\<close>
  message arrives and another cycle runs: the only request posted is the
  bucket request of the timer, and the run ends disconnected.
\<close>

theorem disconnected_drops_events_witness:
  "connectionState (script example_failed_loop) = Disconnected
   \<and> list_all (\<lambda>x. \<not> bucket_success x) example_steps
   \<and> list_all (\<lambda>x. \<not> heartbeat_success x) example_steps
   \<and> map_option snd (run example_URL example_RegExp example_steps example_failed_loop) =
       Some [example_bucket_request]
   \<and> map_option (filter is_heartbeat \<circ> snd)
       (run example_URL example_RegExp example_steps example_failed_loop) = Some []
   \<and> map_option (connectionState \<circ> script \<circ> fst)
       (run example_URL example_RegExp example_steps example_failed_loop) =
       Some Disconnected
   \<and> sendHeartbeat_fetch example_now (script example_failed_loop) example_data = None"
proof -
  have dis: "connectionState (script example_failed_loop) = Disconnected"
    by (simp add: connectionState_def example_failed_loop_def)
  have nb: "list_all (\<lambda>x. \<not> bucket_success x) example_steps"
    by (simp add: example_steps_def ok_def)
  have nh: "list_all (\<lambda>x. \<not> heartbeat_success x) example_steps"
    by (simp add: example_steps_def ok_def)
  obtain l' where r:
    "run example_URL example_RegExp example_steps example_failed_loop =
       Some (l', [example_bucket_request])"
    by (simp add: example_steps_def example_defs cycle_defs loop_defs)
  from disconnected_drops_events[OF dis nb disjI2[OF nh] r, of example_now example_data]
  have "sendHeartbeat_fetch example_now (script example_failed_loop) example_data = None"
    and "filter is_heartbeat [example_bucket_request] = []"
    and "connectionState (script l') = Disconnected"
    by simp_all
  with dis nb nh r show ?thesis by simp
qed

text \<open>
  The claim as written fails.  In the connected example state a cycle posts a
  heartbeat; a connection test then fails, which leaves the state
  disconnected with that heartbeat in flight.  No bucket request succeeds
  afterwards, yet the heartbeat is answered with 200, which sets the flag, and
  the next cycle posts a heartbeat.
\<close>

theorem heartbeat_posted_after_late_success:
  "run example_URL example_RegExp example_before example_loop =
     Some (example_failed_loop, [example_request, example_bucket_request])
   \<and> connectionState (script example_failed_loop) = Disconnected
   \<and> list_all (\<lambda>x. \<not> bucket_success x) example_after
   \<and> map_option snd (run example_URL example_RegExp example_after example_failed_loop) =
       Some [example_request]
   \<and> is_heartbeat example_request"
  by (simp add: example_before_def example_after_def connectionState_def example_defs
      cycle_defs loop_defs)

section \<open>The privacy checks\<close>

text \<open>
  Claim C7.  When the sampled tab is incognito and \<^verbatim>\<open>incognitoTracking\<close> is off,
  \<^verbatim>\<open>getCurrentTabData\<close> yields no tab and the cycle ends there: no event data is
  built, nothing is posted and the state is unchanged, whatever the other
  settings, the connection flag, and the url and title of the tab are.
\<close>

theorem incognito_blocked:
  assumes "incognito tab" and "\<not> incognitoTracking (CONFIG s)"
  shows "getCurrentTabData (CONFIG s) (tab # rest) = None
    \<and> heartbeat newURL RegExp (tab # rest) allTabs now s = (s, None)"
  using assms by (simp add: heartbeat_def getCurrentTabData_def)

text \<open>
  An instance: in a connected, enabled state the example tab is posted, and
  the same tab in an incognito window is not.
\<close>

theorem incognito_blocked_witness:
  "incognito (example_tab\<lparr>incognito := True\<rparr>)
   \<and> \<not> incognitoTracking (CONFIG example_state)
   \<and> heartbeat example_URL example_RegExp [example_tab\<lparr>incognito := True\<rparr>] [example_tab]
       example_now example_state = (example_state, None)
   \<and> snd (heartbeat example_URL example_RegExp [example_tab] [example_tab]
            example_now example_state) \<noteq> None"
  using incognito_blocked[of "example_tab\<lparr>incognito := True\<rparr>" example_state Nil
      example_URL example_RegExp "[example_tab]" example_now]
  by (simp add: example_defs cycle_defs)

text \<open>
  Claim C9, as the code has it.  When the host name of the sampled tab, as
  the url parser yields it, contains an entry of \<^verbatim>\<open>excludeDomains\<close> as a
  substring, \<^verbatim>\<open>processTabData\<close> yields no event data and the cycle posts nothing
  and leaves the state unchanged, whatever the path, the title, the other
  settings and the connection flag are.  The filter does not put the host name
  in lower case itself.  The entry need not be a whole label of the name:
  \<^verbatim>\<open>str_includes\<close> is the substring test (\<open>str_includes_sublist\<close>).
\<close>

theorem excluded_domain_blocked:
  assumes "url tab = Some u" and "newURL u = Some parsed"
    and "d \<in> set (excludeDomains (CONFIG s))"
    and "str_includes (hostname parsed) d"
  shows "processTabData newURL RegExp (CONFIG s) tab = None
    \<and> heartbeat newURL RegExp (tab # rest) allTabs now s = (s, None)"
proof -
  from assms(3,4)
  have "list_ex (\<lambda>d. str_includes (hostname parsed) d) (excludeDomains (CONFIG s))"
    unfolding list_ex_iff by auto
  with assms(1,2) have blocked: "processTabData newURL RegExp (CONFIG s) tab = None"
    by (simp add: processTabData_def processTabData_try_def)
  then have "heartbeat newURL RegExp (tab # rest) allTabs now s = (s, None)"
    by (simp add: heartbeat_def getCurrentTabData_def split: option.splits)
  with blocked show ?thesis by simp
qed

text \<open>
  An instance: with the entry \<^verbatim>\<open>hub.c\<close>, which is no label of \<^verbatim>\<open>github.com\<close>, the
  example tab is not posted in a connected, enabled state.
\<close>

theorem excluded_domain_blocked_witness:
  "url example_tab = Some ''https://github.com/user/repo/pull/123''
   \<and> example_URL ''https://github.com/user/repo/pull/123'' =
       Some \<lparr>hostname = ''github.com'', pathname = ''/user/repo/pull/123'',
             protocol = ''https:''\<rparr>
   \<and> ''hub.c'' \<in> set (excludeDomains (CONFIG (example_exclude [''hub.c''] [])))
   \<and> str_includes ''github.com'' ''hub.c''
   \<and> heartbeat example_URL example_RegExp [example_tab] [example_tab] example_now
       (example_exclude [''hub.c''] []) = (example_exclude [''hub.c''] [], None)"
  using excluded_domain_blocked[of example_tab "''https://github.com/user/repo/pull/123''"
      example_URL
      "\<lparr>hostname = ''github.com'', pathname = ''/user/repo/pull/123'', protocol = ''https:''\<rparr>"
      "''hub.c''" "example_exclude [''hub.c''] []" example_RegExp Nil "[example_tab]"
      example_now]
  by (simp add: example_defs example_exclude_def)

text \<open>
  The claim as written fails.  The url \<^verbatim>\<open>foo://LOCALHOST/x\<close> has the host name
  \<^verbatim>\<open>LOCALHOST\<close>, which in lower case contains the default entry \<^verbatim>\<open>localhost\<close>; the
  filter tests the name as it is, finds no entry in it, and the cycle posts the
  heartbeat in the connected example state.
\<close>

theorem upper_case_host_not_blocked:
  "url example_upper_tab = Some ''foo://LOCALHOST/x''
   \<and> example_URL ''foo://LOCALHOST/x'' =
       Some \<lparr>hostname = ''LOCALHOST'', pathname = ''/x'', protocol = ''foo:''\<rparr>
   \<and> ''localhost'' \<in> set (excludeDomains (CONFIG example_state))
   \<and> str_includes (toLowerCase ''LOCALHOST'') ''localhost''
   \<and> snd (heartbeat example_URL example_RegExp [example_upper_tab] [example_upper_tab]
            example_now example_state) =
       Some (POST_heartbeat ''http://localhost:5600''
               (Some ''aw-watcher-web-enhanced_laptop'') 6
               \<lparr>timestamp = example_now, duration = 0,
                data = \<lparr>data_url = ''foo://LOCALHOST/x'', data_title = ''Local page'',
                        data_domain = ''LOCALHOST'', data_incognito = False,
                        data_tabCount = 1, data_audible = False, data_protocol = ''foo'',
                        data_path = ''/x'', data_category = None\<rparr>\<rparr>)"
  by (simp add: example_upper_tab_def example_defs cycle_defs categorizeDomain_def
      toLowerCase_def lowerChar_def)

lemma list_ex_removeAll:
  "\<not> P p \<Longrightarrow> list_ex P (removeAll p ps) = list_ex P ps"
  by (induction ps) auto

text \<open>
  Claim C6.  An entry \<open>p\<close> of \<^verbatim>\<open>excludePatterns\<close> that does not compile matches no
  url: the callback catches the error and answers \<^verbatim>\<open>false\<close>.  The body of
  \<^verbatim>\<open>processTabData\<close> never ends with that error, and \<^verbatim>\<open>processTabData\<close> and the
  whole cycle give the same result as with the entry removed from the list, so
  a tab that the other checks let pass is not blocked by it.
\<close>

theorem malformed_pattern_ignored:
  assumes "RegExp p = None"
  shows "pattern_excludes RegExp u p = False
    \<and> processTabData_try newURL RegExp c tab u \<noteq> Inl SyntaxError
    \<and> processTabData newURL RegExp c tab =
        processTabData newURL RegExp
          (c\<lparr>excludePatterns := removeAll p (excludePatterns c)\<rparr>) tab
    \<and> snd (heartbeat newURL RegExp tabs allTabs now s) =
        snd (heartbeat newURL RegExp tabs allTabs now
              (s\<lparr>CONFIG := (CONFIG s)\<lparr>excludePatterns :=
                    removeAll p (excludePatterns (CONFIG s))\<rparr>\<rparr>))"
proof -
  have no: "\<not> pattern_excludes RegExp v p" for v
    using assms by (simp add: pattern_excludes_def pattern_test_def)
  have ex: "list_ex (pattern_excludes RegExp v) (removeAll p ps) =
      list_ex (pattern_excludes RegExp v) ps" for v ps
    using no by (rule list_ex_removeAll)
  have try_eq: "processTabData_try newURL RegExp
        (c'\<lparr>excludePatterns := removeAll p (excludePatterns c')\<rparr>) tab' v =
      processTabData_try newURL RegExp c' tab' v" for c' tab' v
    by (simp add: processTabData_try_def ex split: option.splits)
  have proc_eq: "processTabData newURL RegExp
        (c'\<lparr>excludePatterns := removeAll p (excludePatterns c')\<rparr>) tab' =
      processTabData newURL RegExp c' tab'" for c' tab'
    by (simp add: processTabData_def try_eq split: option.splits)
  have a: "pattern_excludes RegExp u p = False" using no by simp
  have b: "processTabData_try newURL RegExp c tab u \<noteq> Inl SyntaxError"
    by (simp add: processTabData_try_def split: option.splits)
  let ?s2 = "s\<lparr>CONFIG := (CONFIG s)\<lparr>excludePatterns :=
      removeAll p (excludePatterns (CONFIG s))\<rparr>\<rparr>"
  have g: "getCurrentTabData (CONFIG ?s2) tabs = getCurrentTabData (CONFIG s) tabs"
    by (cases tabs) (simp_all add: getCurrentTabData_def)
  have q: "processTabData newURL RegExp (CONFIG ?s2) tab' =
      processTabData newURL RegExp (CONFIG s) tab'" for tab'
    using proc_eq[of "CONFIG s" tab'] by simp
  have f: "sendHeartbeat_fetch now (?s2\<lparr>currentTab := t\<rparr>) d' =
      sendHeartbeat_fetch now (s\<lparr>currentTab := t\<rparr>) d'" for t d'
    by (simp add: sendHeartbeat_fetch_def)
  have d: "snd (heartbeat newURL RegExp tabs allTabs now s) =
      snd (heartbeat newURL RegExp tabs allTabs now ?s2)"
    unfolding heartbeat_def g q Let_def
    by (simp add: f split: option.splits)
  from a b proc_eq[of c tab] d show ?thesis by simp
qed

text \<open>
  An instance: with the pattern \<^verbatim>\<open>(\<close>, which does not compile, in the list the
  example tab is posted as it is with an empty list; with the pattern \<^verbatim>\<open>pull\<close>
  it is not.
\<close>

theorem malformed_pattern_ignored_witness:
  "example_RegExp ''('' = None
   \<and> pattern_excludes example_RegExp ''https://github.com/user/repo/pull/123'' ''('' = False
   \<and> snd (heartbeat example_URL example_RegExp [example_tab] [example_tab] example_now
            (example_exclude [] [''(''])) =
       snd (heartbeat example_URL example_RegExp [example_tab] [example_tab] example_now
            (example_exclude [] []))
   \<and> snd (heartbeat example_URL example_RegExp [example_tab] [example_tab] example_now
            (example_exclude [] [''(''])) \<noteq> None
   \<and> snd (heartbeat example_URL example_RegExp [example_tab] [example_tab] example_now
            (example_exclude [] [''pull''])) = None"
  using malformed_pattern_ignored[of example_RegExp "''(''"
      "''https://github.com/user/repo/pull/123''" example_URL "CONFIG example_state"
      example_tab "[example_tab]" "[example_tab]" example_now "example_exclude [] [''('']"]
  by (simp add: example_defs example_exclude_def cycle_defs toLowerCase_def lowerChar_def)


section \<open>Redaction\<close>

lemma processTabData_Some:
  assumes "processTabData newURL RegExp c tab = Some d"
  shows "\<exists>u parsed. url tab = Some u \<and> newURL u = Some parsed \<and>
     d = \<lparr>data_url = (if trackUrls c then u else ''[redacted]''),
          data_title =
            (if trackTitles c then (case title tab of None \<Rightarrow> [] | Some t \<Rightarrow> t)
             else ''[redacted]''),
          data_domain = hostname parsed,
          data_incognito = incognito tab,
          data_tabCount = 0,
          data_audible = (case audible tab of None \<Rightarrow> False | Some a \<Rightarrow> a),
          data_protocol = replaceFirst (protocol parsed) '':'' [],
          data_path = pathname parsed,
          data_category = categorizeDomain (hostname parsed) (pathname parsed)\<rparr>"
  using assms
  by (auto simp add: processTabData_def processTabData_try_def split: option.splits if_splits)

text \<open>
  Claim C10.  When a cycle posts a heartbeat, the tab sampled has a url \<open>u\<close> that
  parses, and in the data of the event: the url is \<^verbatim>\<open>[redacted]\<close> when
  \<^verbatim>\<open>trackUrls\<close> is off and \<open>u\<close> otherwise; the title is \<^verbatim>\<open>[redacted]\<close> when
  \<^verbatim>\<open>trackTitles\<close> is off and the tab's title otherwise; and the domain, the path,
  the protocol and the category are those of the parsed \<open>u\<close>, whatever the two
  flags are.
\<close>

theorem redaction_keeps_url_parts:
  assumes "heartbeat newURL RegExp tabs allTabs now s = (s', Some req)"
  shows "\<exists>tab rest u parsed ev.
      tabs = tab # rest \<and> url tab = Some u \<and> newURL u = Some parsed
    \<and> req = POST_heartbeat (serverUrl (CONFIG s)) (bucketId (CONFIG s))
              (pulsetime (CONFIG s)) ev
    \<and> (\<not> trackUrls (CONFIG s) \<longrightarrow> data_url (data ev) = ''[redacted]'')
    \<and> (trackUrls (CONFIG s) \<longrightarrow> data_url (data ev) = u)
    \<and> (\<not> trackTitles (CONFIG s) \<longrightarrow> data_title (data ev) = ''[redacted]'')
    \<and> (trackTitles (CONFIG s) \<longrightarrow>
         data_title (data ev) = (case title tab of None \<Rightarrow> [] | Some t \<Rightarrow> t))
    \<and> data_domain (data ev) = hostname parsed
    \<and> data_path (data ev) = pathname parsed
    \<and> data_protocol (data ev) = replaceFirst (protocol parsed) '':'' []
    \<and> data_category (data ev) = categorizeDomain (hostname parsed) (pathname parsed)"
proof -
  from assms obtain tab where cur: "getCurrentTabData (CONFIG s) tabs = Some tab"
    by (auto simp add: heartbeat_def split: option.splits)
  then obtain rest where tabs: "tabs = tab # rest"
    by (auto simp add: getCurrentTabData_def split: list.splits option.splits if_splits)
  from assms cur obtain d where proc: "processTabData newURL RegExp (CONFIG s) tab = Some d"
    by (auto simp add: heartbeat_def split: option.splits)
  let ?ev = "\<lparr>timestamp = now, duration = 0, data = d\<lparr>data_tabCount := length allTabs\<rparr>\<rparr>"
  from assms cur proc
  have "sendHeartbeat_fetch now (s\<lparr>currentTab := Some tab\<rparr>)
          (d\<lparr>data_tabCount := length allTabs\<rparr>) = Some req"
    by (auto simp add: heartbeat_def Let_def)
  then have req: "req = POST_heartbeat (serverUrl (CONFIG s)) (bucketId (CONFIG s))
       (pulsetime (CONFIG s)) ?ev"
    by (auto simp add: sendHeartbeat_fetch_def split: if_splits)
  from processTabData_Some[OF proc] obtain u parsed where
    "url tab = Some u" "newURL u = Some parsed" and
    "d = \<lparr>data_url = (if trackUrls (CONFIG s) then u else ''[redacted]''),
          data_title =
            (if trackTitles (CONFIG s) then (case title tab of None \<Rightarrow> [] | Some t \<Rightarrow> t)
             else ''[redacted]''),
          data_domain = hostname parsed,
          data_incognito = incognito tab,
          data_tabCount = 0,
          data_audible = (case audible tab of None \<Rightarrow> False | Some a \<Rightarrow> a),
          data_protocol = replaceFirst (protocol parsed) '':'' [],
          data_path = pathname parsed,
          data_category = categorizeDomain (hostname parsed) (pathname parsed)\<rparr>"
    by blast
  with tabs req show ?thesis
    by (intro exI[of _ tab] exI[of _ rest] exI[of _ u] exI[of _ parsed] exI[of _ ?ev]) simp
qed

text \<open>
  An instance: with both flags off, the event posted for the example tab
  carries the two redacted fields and the parts of the real url.
\<close>

theorem redaction_keeps_url_parts_witness:
  "\<exists>ev. snd (heartbeat example_URL example_RegExp [example_tab] [example_tab, example_tab]
              example_now (example_flags False False)) =
          Some (POST_heartbeat ''http://localhost:5600''
                  (Some ''aw-watcher-web-enhanced_laptop'') 6 ev)
     \<and> data_url (data ev) = ''[redacted]''
     \<and> data_title (data ev) = ''[redacted]''
     \<and> data_domain (data ev) = ''github.com''
     \<and> data_path (data ev) = ''/user/repo/pull/123''
     \<and> data_protocol (data ev) = ''https''
     \<and> data_category (data ev) = Some ''Work/Development/Code Review''
     \<and> data_tabCount (data ev) = 2"
proof -
  obtain s' req where h:
    "heartbeat example_URL example_RegExp [example_tab] [example_tab, example_tab]
       example_now (example_flags False False) = (s', Some req)"
    by (simp add: example_defs example_flags_def cycle_defs)
  from redaction_keeps_url_parts[OF h] obtain ev where
    "req = POST_heartbeat (serverUrl (CONFIG (example_flags False False)))
             (bucketId (CONFIG (example_flags False False)))
             (pulsetime (CONFIG (example_flags False False))) ev"
    and "data_url (data ev) = ''[redacted]''" and "data_title (data ev) = ''[redacted]''"
    and "data_domain (data ev) = ''github.com''"
    and "data_path (data ev) = ''/user/repo/pull/123''"
    and "data_protocol (data ev) = ''https''"
    and "data_category (data ev) = Some ''Work/Development/Code Review''"
    by (auto simp add: example_defs example_flags_def categorizeDomain_def toLowerCase_def
        lowerChar_def)
  moreover from h have "data_tabCount (data ev) = 2"
    using calculation(1) by (auto simp add: example_defs example_flags_def cycle_defs)
  ultimately show ?thesis
    using h by (intro exI[of _ ev]) (simp add: example_defs example_flags_def)
qed

section \<open>The \<^verbatim>\<open>setEnabled\<close> message\<close>

text \<open>
  Claim C2, as the code has it.  The \<^verbatim>\<open>setEnabled\<close> message assigns its argument
  to \<^verbatim>\<open>CONFIG.enabled\<close>, writes it to the settings store, and calls \<^verbatim>\<open>heartbeat\<close>
  once exactly when the argument is true, whatever the flag was before: also
  when it was already true.  With the argument false it calls \<^verbatim>\<open>heartbeat\<close> not
  at all.
\<close>

theorem setEnabled_triggers_on_true:
  "enabled (CONFIG (fst (onMessage (SetEnabled e) s))) = e
   \<and> fst (onMessage (SetEnabled e) s) = s\<lparr>CONFIG := (CONFIG s)\<lparr>enabled := e\<rparr>\<rparr>
   \<and> snd (onMessage (SetEnabled e) s) =
       (if e then [Store (no_settings\<lparr>new_enabled := Some e\<rparr>), Call_heartbeat,
                   Respond Success]
        else [Store (no_settings\<lparr>new_enabled := Some e\<rparr>), Respond Success])
   \<and> count_list (snd (onMessage (SetEnabled e) s)) Call_heartbeat = (if e then 1 else 0)"
  by (simp add: onMessage_def)

text \<open>
  The claim as written fails: in the initial state tracking is enabled, and
  \<^verbatim>\<open>setEnabled(true)\<close> calls \<^verbatim>\<open>heartbeat\<close> all the same.
\<close>

theorem setEnabled_true_when_enabled:
  "enabled (CONFIG State_initial)
   \<and> snd (onMessage (SetEnabled True) State_initial) =
       [Store (no_settings\<lparr>new_enabled := Some True\<rparr>), Call_heartbeat, Respond Success]
   \<and> count_list (snd (onMessage (SetEnabled True) State_initial)) Call_heartbeat = 1"
  by (simp add: onMessage_def State_initial_def CONFIG_initial_def)


end
